theory Spec2Isabelle
  imports Main "HOL-Library.Sublist" "HOL-Library.Char_ord"
begin

section \<open>The execution kernel of \<^verbatim>\<open>src/services/kernel_runner.py\<close>\<close>

text \<open>
  The kernel is two Python functions: \<^verbatim>\<open>execute_code\<close>, which compiles and runs one
  snippet against a persistent dictionary while the standard streams are redirected into
  two buffers, and \<^verbatim>\<open>main\<close>, the request loop over standard input.

  Both are embedded as they are written. What they call but do not define (the JSON
  codec, \<^verbatim>\<open>compile\<close>, \<^verbatim>\<open>exec\<close> and \<^verbatim>\<open>traceback.format_exc\<close>) is the Python runtime; it
  is a parameter of the embedding (the record \<open>runtime\<close>), so every general theorem
  below holds for whatever the runtime does.
\<close>

subsection \<open>Python values and exceptions\<close>

text \<open>
  The values \<^verbatim>\<open>json.loads\<close> can produce, and the values bound in the persistent
  dictionary. A dictionary is an association list read with \<open>map_of\<close>; \<open>PObject\<close>
  stands for any other object (a function, a module), known by identity only.
\<close>

datatype pyval =
    PNone
  | PBool bool
  | PInt int
  | PFloat string
  | PStr string
  | PList "pyval list"
  | PDict "(string \<times> pyval) list"
  | PObject nat

text \<open>
  An exception object: the names of its class and of that class's ancestors (most
  specific first), and \<^verbatim>\<open>str(e)\<close>. An \<^verbatim>\<open>except C\<close> clause matches by
  \<^verbatim>\<open>isinstance\<close>, that is by membership of \<^verbatim>\<open>C\<close> in that list.
\<close>

datatype pyexc = PyExc (exc_mro: "string list") (exc_str: string)

definition isinstance :: "pyexc \<Rightarrow> string \<Rightarrow> bool" where
  "isinstance e c = (c \<in> set (exc_mro e))"

definition AttributeError :: "string \<Rightarrow> pyexc" where
  "AttributeError m = PyExc [''AttributeError'', ''Exception'', ''BaseException''] m"

fun type_name :: "pyval \<Rightarrow> string" where
  "type_name PNone = ''NoneType''"
| "type_name (PBool b) = ''bool''"
| "type_name (PInt i) = ''int''"
| "type_name (PFloat f) = ''float''"
| "type_name (PStr s) = ''str''"
| "type_name (PList xs) = ''list''"
| "type_name (PDict kvs) = ''dict''"
| "type_name (PObject n) = ''object''"

subsection \<open>The process: stream bindings, buffers and the real streams\<close>

text \<open>
  \<^verbatim>\<open>sys.stdout\<close> and \<^verbatim>\<open>sys.stderr\<close> are rebindable names. Each is bound either to one
  of the two real streams of the process or to an \<^verbatim>\<open>io.StringIO\<close> object. Such an
  object has its text and can be closed; the objects live in a store indexed by
  allocation order. \<open>stdin\<close> holds the lines not yet read from the standard input. What
  happens on the real streams is recorded, in order, in \<open>trace\<close>: the reads, what the
  kernel itself writes and flushes, and what the executed code writes. The real streams
  stay open.
\<close>

datatype real_stream = Stdout | Stderr

datatype target = Real real_stream | StringIO nat

datatype io_event =
    Read string
  | Write real_stream string
  | Flush real_stream
  | Code_write real_stream string

record buffer =
  content :: string
  closed :: bool

record proc =
  sys_stdout :: target
  sys_stderr :: target
  store :: "buffer list"
  stdin :: "string list"
  trace :: "io_event list"

definition initial_proc :: proc where
  "initial_proc =
     \<lparr>sys_stdout = Real Stdout, sys_stderr = Real Stderr, store = [], stdin = [], trace = []\<rparr>"

definition new_StringIO :: "proc \<Rightarrow> target \<times> proc" where
  "new_StringIO p =
     (StringIO (length (store p)), p\<lparr>store := store p @ [\<lparr>content = [], closed = False\<rparr>]\<rparr>)"

text \<open>
  Appending to a buffer. (\<^verbatim>\<open>write\<close> on a closed buffer raises and leaves it as it is;
  the exception is part of the run that made the call.)
\<close>

definition append_to :: "nat \<Rightarrow> string \<Rightarrow> proc \<Rightarrow> proc" where
  "append_to n s p =
     (if closed (store p ! n) then p
      else p\<lparr>store := (store p)[n := (store p ! n)\<lparr>content := content (store p ! n) @ s\<rparr>]\<rparr>)"

text \<open>\<^verbatim>\<open>sys.stdout.write\<close> and \<^verbatim>\<open>flush\<close> as the kernel calls them in \<^verbatim>\<open>main\<close>.\<close>

fun write_to :: "target \<Rightarrow> string \<Rightarrow> proc \<Rightarrow> proc" where
  "write_to (Real r) s p = p\<lparr>trace := trace p @ [Write r s]\<rparr>"
| "write_to (StringIO n) s p = append_to n s p"

fun flush :: "target \<Rightarrow> proc \<Rightarrow> proc" where
  "flush (Real r) p = p\<lparr>trace := trace p @ [Flush r]\<rparr>"
| "flush (StringIO n) p = p"

text \<open>\<^verbatim>\<open>getvalue\<close> raises \<^verbatim>\<open>ValueError\<close> on a closed buffer.\<close>

definition ValueError :: "string \<Rightarrow> pyexc" where
  "ValueError m = PyExc [''ValueError'', ''Exception'', ''BaseException''] m"

fun getvalue :: "target \<Rightarrow> proc \<Rightarrow> pyexc + string" where
  "getvalue (StringIO n) p =
     (if closed (store p ! n) then Inl (ValueError ''I/O operation on closed file'')
      else Inr (content (store p ! n)))"
| "getvalue (Real r) p = Inr []"

subsection \<open>The Python runtime, as a parameter\<close>

text \<open>
  One run of \<^verbatim>\<open>exec(compiled_code, context)\<close> is observed through what it does, in order,
  to the streams of the process; the dictionary it leaves behind (the dictionary is
  mutated in place, so the bindings made before a failure stay); and how it ends:
  normally, by raising an exception, or not at all.

  What it can do to the streams: write through \<^verbatim>\<open>sys.stdout\<close> or \<^verbatim>\<open>sys.stderr\<close>
  (wherever the name points at that moment); write to a real stream directly
  (\<^verbatim>\<open>sys.__stdout__\<close>, the file descriptor); bind one of the two names to another
  object; close, or rewind and truncate, the object a name is bound to; read a line from
  the standard input.

  The code runs in the interpreter of the kernel and shares all of it. What is followed
  here is what it can do to the streams and to the dictionary; a run that replaces what
  the kernel calls (\<^verbatim>\<open>sys.stdin\<close>, an attribute of \<^verbatim>\<open>json\<close>, \<^verbatim>\<open>traceback\<close> or \<^verbatim>\<open>io\<close>, say) or
  that ends the process on its own (\<^verbatim>\<open>os._exit\<close>) is not among the runs described.
\<close>

type_synonym pycontext = "string \<rightharpoonup> pyval"

datatype effect =
    Out string
  | Err string
  | Direct real_stream string
  | Rebind_stdout target
  | Rebind_stderr target
  | Close_stdout
  | Close_stderr
  | Rewind_stdout
  | Rewind_stderr
  | Input

datatype outcome = Finished | Raised pyexc | Hangs

record run =
  effects :: "effect list"
  final_context :: pycontext
  outcome :: outcome

text \<open>The dictionary \<^verbatim>\<open>execute_code\<close> returns, which \<^verbatim>\<open>json.dumps\<close> encodes.\<close>

record response =
  stdout :: string
  stderr :: string
  error :: "string option"

text \<open>
  \<^verbatim>\<open>compile\<close> gives what the compiler wrote through \<^verbatim>\<open>sys.stderr\<close> (its warnings) and
  then either the exception it raised or the code object.
\<close>

record 'c runtime =
  json_loads :: "string \<Rightarrow> pyexc + pyval"
  json_dumps :: "response \<Rightarrow> string"
  compile :: "pyval \<Rightarrow> string \<times> (pyexc + 'c)"
  exec :: "'c \<Rightarrow> pycontext \<Rightarrow> run"
  format_exc :: "pyexc \<Rightarrow> string"

subsection \<open>\<^verbatim>\<open>execute_code\<close>\<close>

text \<open>
  How a call of \<^verbatim>\<open>execute_code\<close> ends: it returns its dictionary, or an exception
  leaves it (one that \<^verbatim>\<open>except Exception\<close> does not match, or one raised after the
  \<^verbatim>\<open>try\<close> statement), or it never ends. In the first two cases the persistent dictionary
  and the process are as the call left them.
\<close>

datatype call_result =
    Returned response pycontext proc
  | Propagated pyexc pycontext proc
  | Diverged

text \<open>What the executed code does to the process.\<close>

fun emit :: "target \<Rightarrow> string \<Rightarrow> proc \<Rightarrow> proc" where
  "emit (Real r) s p = p\<lparr>trace := trace p @ [Code_write r s]\<rparr>"
| "emit (StringIO n) s p = append_to n s p"

fun close_target :: "target \<Rightarrow> proc \<Rightarrow> proc" where
  "close_target (Real r) p = p"
| "close_target (StringIO n) p = p\<lparr>store := (store p)[n := (store p ! n)\<lparr>closed := True\<rparr>]\<rparr>"

fun rewind :: "target \<Rightarrow> proc \<Rightarrow> proc" where
  "rewind (Real r) p = p"
| "rewind (StringIO n) p =
     (if closed (store p ! n) then p
      else p\<lparr>store := (store p)[n := (store p ! n)\<lparr>content := []\<rparr>]\<rparr>)"

definition readline :: "proc \<Rightarrow> string \<times> proc" where
  "readline p =
     (case stdin p of
        [] \<Rightarrow> ([], p\<lparr>trace := trace p @ [Read []]\<rparr>)
      | line # rest \<Rightarrow> (line, p\<lparr>stdin := rest, trace := trace p @ [Read line]\<rparr>))"

fun perform :: "effect \<Rightarrow> proc \<Rightarrow> proc" where
  "perform (Out s) p = emit (sys_stdout p) s p"
| "perform (Err s) p = emit (sys_stderr p) s p"
| "perform (Direct r s) p = emit (Real r) s p"
| "perform (Rebind_stdout t) p = p\<lparr>sys_stdout := t\<rparr>"
| "perform (Rebind_stderr t) p = p\<lparr>sys_stderr := t\<rparr>"
| "perform Close_stdout p = close_target (sys_stdout p) p"
| "perform Close_stderr p = close_target (sys_stderr p) p"
| "perform Rewind_stdout p = rewind (sys_stdout p) p"
| "perform Rewind_stderr p = rewind (sys_stderr p) p"
| "perform Input p = snd (readline p)"

text \<open>
  The two statements under the \<^verbatim>\<open>with\<close>: \<^verbatim>\<open>compile\<close> first, whose warnings go through
  \<^verbatim>\<open>sys.stderr\<close> as it is bound there (an exception from \<^verbatim>\<open>compile\<close> leaves the
  dictionary untouched), then \<^verbatim>\<open>exec\<close>.
\<close>

definition warn :: "string \<Rightarrow> proc \<Rightarrow> proc" where
  "warn warnings p = (if warnings = [] then p else emit (sys_stderr p) warnings p)"

definition with_body :: "'c runtime \<Rightarrow> pyval \<Rightarrow> pycontext \<Rightarrow> proc \<Rightarrow> outcome \<times> pycontext \<times> proc" where
  "with_body rt code ctx p =
     (case compile rt code of
        (warnings, Inl e) \<Rightarrow> (Raised e, ctx, warn warnings p)
      | (warnings, Inr compiled_code) \<Rightarrow>
          (let r = exec rt compiled_code ctx
           in (outcome r, final_context r, fold perform (effects r) (warn warnings p))))"

text \<open>
  \<^verbatim>\<open>contextlib.redirect_stdout(new)\<close> around a block: on entry the current binding of
  \<^verbatim>\<open>sys.stdout\<close> is saved and replaced by \<open>new\<close>; on exit, normal or by an exception,
  the saved binding is put back. A block that never ends never exits.
\<close>

definition redirect_stdout ::
  "target \<Rightarrow> (proc \<Rightarrow> outcome \<times> pycontext \<times> proc) \<Rightarrow> proc \<Rightarrow> outcome \<times> pycontext \<times> proc" where
  "redirect_stdout new block p =
     (let old = sys_stdout p;
          (r, ctx, p') = block (p\<lparr>sys_stdout := new\<rparr>)
      in if r = Hangs then (r, ctx, p') else (r, ctx, p'\<lparr>sys_stdout := old\<rparr>))"

definition redirect_stderr ::
  "target \<Rightarrow> (proc \<Rightarrow> outcome \<times> pycontext \<times> proc) \<Rightarrow> proc \<Rightarrow> outcome \<times> pycontext \<times> proc" where
  "redirect_stderr new block p =
     (let old = sys_stderr p;
          (r, ctx, p') = block (p\<lparr>sys_stderr := new\<rparr>)
      in if r = Hangs then (r, ctx, p') else (r, ctx, p'\<lparr>sys_stderr := old\<rparr>))"

text \<open>
  The dictionary of the \<^verbatim>\<open>return\<close> statement, built after the \<^verbatim>\<open>try\<close> statement:
  \<^verbatim>\<open>stdout_capture.getvalue()\<close> first, then \<^verbatim>\<open>stderr_capture.getvalue()\<close>; an exception
  from either leaves \<^verbatim>\<open>execute_code\<close>.
\<close>

definition build_response ::
  "target \<Rightarrow> target \<Rightarrow> string option \<Rightarrow> pycontext \<Rightarrow> proc \<Rightarrow> call_result" where
  "build_response stdout_capture stderr_capture err ctx p =
     (case getvalue stdout_capture p of
        Inl e \<Rightarrow> Propagated e ctx p
      | Inr out \<Rightarrow>
          (case getvalue stderr_capture p of
             Inl e \<Rightarrow> Propagated e ctx p
           | Inr errs \<Rightarrow> Returned \<lparr>stdout = out, stderr = errs, error = err\<rparr> ctx p))"

text \<open>
  The function: two fresh buffers, the \<^verbatim>\<open>with\<close> statement inside the \<^verbatim>\<open>try\<close>, the
  clause \<^verbatim>\<open>except Exception\<close>, and the \<^verbatim>\<open>return\<close>. (The local \<^verbatim>\<open>result\<close> is assigned
  once and never read.)
\<close>

definition execute_code :: "'c runtime \<Rightarrow> pyval \<Rightarrow> pycontext \<Rightarrow> proc \<Rightarrow> call_result" where
  "execute_code rt code ctx p =
     (let (stdout_capture, p1) = new_StringIO p;
          (stderr_capture, p2) = new_StringIO p1;
          (r, ctx', p3) =
             redirect_stdout stdout_capture
               (redirect_stderr stderr_capture (with_body rt code ctx)) p2
      in case r of
           Hangs \<Rightarrow> Diverged
         | Finished \<Rightarrow> build_response stdout_capture stderr_capture None ctx' p3
         | Raised e \<Rightarrow>
             if isinstance e ''Exception''
             then build_response stdout_capture stderr_capture (Some (format_exc rt e)) ctx' p3
             else Propagated e ctx' p3)"

subsection \<open>\<^verbatim>\<open>main\<close>\<close>

text \<open>
  \<^verbatim>\<open>request.get("code", "")\<close>: only a dictionary has the method; on any other value
  the attribute lookup raises \<^verbatim>\<open>AttributeError\<close>.
\<close>

fun request_get :: "pyval \<Rightarrow> string \<Rightarrow> pyval \<Rightarrow> pyexc + pyval" where
  "request_get (PDict kvs) k d = Inr (case map_of kvs k of None \<Rightarrow> d | Some v \<Rightarrow> v)"
| "request_get v k d =
     Inl (AttributeError ([CHR 0x27] @ type_name v @ [CHR 0x27] @ '' object has no attribute ''
            @ [CHR 0x27] @ ''get'' @ [CHR 0x27]))"

text \<open>
  One pass through the body of \<^verbatim>\<open>while True\<close>, after \<^verbatim>\<open>readline\<close> has returned a
  non-empty \<open>line\<close>. It ends in the next iteration (after a response was written, or
  through \<^verbatim>\<open>continue\<close>), or it leaves the loop.
\<close>

datatype loop_exit = Eof | Fatal | Uncaught pyexc | Hung

datatype step_result = Next pycontext proc | Leave loop_exit pycontext proc

text \<open>The two \<^verbatim>\<open>except\<close> clauses of the loop, in their order.\<close>

definition handlers :: "pyexc \<Rightarrow> pycontext \<Rightarrow> proc \<Rightarrow> step_result" where
  "handlers e ctx p =
     (if isinstance e ''JSONDecodeError'' then Next ctx p
      else if isinstance e ''Exception''
      then Leave Fatal ctx
             (write_to (sys_stderr p) (''Fatal Kernel Error: '' @ exc_str e @ [CHR 0x0A]) p)
      else Leave (Uncaught e) ctx p)"

definition step :: "'c runtime \<Rightarrow> string \<Rightarrow> pycontext \<Rightarrow> proc \<Rightarrow> step_result" where
  "step rt line ctx p =
     (case json_loads rt line of
        Inl e \<Rightarrow> handlers e ctx p
      | Inr request \<Rightarrow>
          (case request_get request ''code'' (PStr []) of
             Inl e \<Rightarrow> handlers e ctx p
           | Inr code \<Rightarrow>
               (case execute_code rt code ctx p of
                  Diverged \<Rightarrow> Leave Hung ctx p
                | Propagated e ctx' p' \<Rightarrow> handlers e ctx' p'
                | Returned response ctx' p' \<Rightarrow>
                    Next ctx'
                      (flush (sys_stdout p')
                         (write_to (sys_stdout p')
                            (json_dumps rt response @ [CHR 0x0A]) p')))))"

text \<open>
  The loop, from a process whose \<open>stdin\<close> holds the lines still to be read.
  \<^verbatim>\<open>readline\<close> returns the empty string at end of input, and \<^verbatim>\<open>if not line: break\<close>
  leaves the loop on the empty string. Reading the input and writing the real streams
  succeed; what can raise in a pass is \<^verbatim>\<open>json.loads\<close>, \<^verbatim>\<open>request.get\<close> and
  \<^verbatim>\<open>execute_code\<close>.
\<close>

function while_True :: "'c runtime \<Rightarrow> pycontext \<Rightarrow> proc \<Rightarrow> loop_exit \<times> pycontext \<times> proc" where
  "while_True rt ctx p =
     (case readline p of
        (line, p1) \<Rightarrow>
          if line = [] then (Eof, ctx, p1)
          else (case step rt line ctx p1 of
                  Next ctx' p' \<Rightarrow> while_True rt ctx' p'
                | Leave x ctx' p' \<Rightarrow> (x, ctx', p')))"
  by pat_completeness auto
termination
proof (relation "measure (\<lambda>(rt, ctx, p). length (stdin p))", goal_cases)
  case 1
  show ?case by simp
next
  case (2 rt ctx p line p1 ctx' p')
  have emit: "stdin (emit t s q) = stdin q" for t s q
    by (cases t) (simp_all add: append_to_def)
  have perform: "length (stdin (perform e q)) \<le> length (stdin q)" for e q
    by (cases e; cases "sys_stdout q"; cases "sys_stderr q")
       (simp_all add: readline_def append_to_def split: list.splits)
  have fold: "length (stdin (fold perform es q)) \<le> length (stdin q)" for es q
  proof (induction es arbitrary: q)
    case Nil
    show ?case by simp
  next
    case (Cons e es)
    have "length (stdin (fold perform es (perform e q))) \<le> length (stdin (perform e q))"
      by (rule Cons.IH)
    also have "\<dots> \<le> length (stdin q)" by (rule perform)
    finally show ?case by simp
  qed
  have warn: "stdin (warn w q) = stdin q" for w q
    by (simp add: warn_def emit)
  have body: "length (stdin (snd (snd (with_body rt code c q)))) \<le> length (stdin q)" for code c q
  proof (cases "compile rt code")
    case (Pair w res)
    show ?thesis
    proof (cases res)
      case (Inl e)
      with Pair show ?thesis by (simp add: with_body_def warn)
    next
      case (Inr x)
      with Pair fold[of "effects (exec rt x c)" "warn w q"] show ?thesis
        by (simp add: with_body_def Let_def warn)
    qed
  qed
  have build: "stdin q' = stdin q"
    if "build_response a b err c q = Returned r c' q' \<or> build_response a b err c q = Propagated e c' q'"
    for a b err c q r e c' q'
    using that by (auto simp: build_response_def split: sum.splits)
  have call: "length (stdin q') \<le> length (stdin q)"
    if "execute_code rt code c q = Returned r c' q' \<or> execute_code rt code c q = Propagated e c' q'"
    for code c q r e c' q'
  proof -
    let ?q2 = "q\<lparr>store := store q @ [\<lparr>content = [], closed = False\<rparr>, \<lparr>content = [], closed = False\<rparr>],
      sys_stdout := StringIO (length (store q)), sys_stderr := StringIO (Suc (length (store q)))\<rparr>"
    obtain r0 c0 q0 where w: "with_body rt code c ?q2 = (r0, c0, q0)"
      by (cases "with_body rt code c ?q2") auto
    from body[of code c ?q2] w have "length (stdin q0) \<le> length (stdin q)" by simp
    with that w show ?thesis
      by (auto simp: execute_code_def new_StringIO_def redirect_stdout_def redirect_stderr_def
          Let_def split: outcome.splits if_splits dest!: build[OF disjI1] build[OF disjI2])
  qed
  have handle: "stdin q' = stdin q" if "handlers e c q = Next c' q'" for e c q c' q'
    using that by (auto simp: handlers_def split: if_splits)
  have wf: "stdin (flush t (write_to t s q)) = stdin q" for t s q
    by (cases t) (simp_all add: append_to_def)
  have "length (stdin p') \<le> length (stdin p1)"
  proof (cases "json_loads rt line")
    case (Inl e)
    with 2(3) show ?thesis by (auto simp: step_def dest: handle)
  next
    case (Inr request)
    show ?thesis
    proof (cases "request_get request ''code'' (PStr [])")
      case (Inl e)
      with 2(3) Inr show ?thesis by (auto simp: step_def dest: handle)
    next
      case get: (Inr code)
      show ?thesis
      proof (cases "execute_code rt code ctx p1")
        case (Returned r c q)
        from call[OF disjI1, OF this] 2(3) Inr get Returned show ?thesis
          by (auto simp: step_def wf)
      next
        case (Propagated e c q)
        from 2(3) Inr get Propagated have "handlers e c q = Next ctx' p'"
          by (simp add: step_def)
        then have "stdin p' = stdin q" by (rule handle)
        with call[OF disjI2, OF Propagated] show ?thesis by simp
      next
        case Diverged
        with 2(3) Inr get show ?thesis by (simp add: step_def)
      qed
    qed
  qed
  moreover from 2(1,2) have "length (stdin p1) < length (stdin p)"
    by (auto simp: readline_def split: list.splits)
  ultimately show ?case by simp
qed

declare while_True.simps [simp del]

text \<open>The loop with \<open>lines\<close> on the standard input; \<^verbatim>\<open>main\<close> starts it on the empty dictionary.\<close>

definition loop :: "'c runtime \<Rightarrow> string list \<Rightarrow> pycontext \<Rightarrow> proc \<Rightarrow> loop_exit \<times> pycontext \<times> proc" where
  "loop rt lines ctx p = while_True rt ctx (p\<lparr>stdin := lines\<rparr>)"

definition main :: "'c runtime \<Rightarrow> string list \<Rightarrow> loop_exit \<times> pycontext \<times> proc" where
  "main rt lines = loop rt lines Map.empty initial_proc"

subsection \<open>What a run wrote\<close>

text \<open>
  A run is tame when all it does to the streams is to write through \<^verbatim>\<open>sys.stdout\<close> and
  \<^verbatim>\<open>sys.stderr\<close>.
\<close>

fun tame :: "effect list \<Rightarrow> bool" where
  "tame [] = True"
| "tame (Out s # es) = tame es"
| "tame (Err s # es) = tame es"
| "tame (e # es) = False"

text \<open>
  A run is confined when its output has no way to a real stream: it does not write to a
  real stream directly, and it binds neither \<^verbatim>\<open>sys.stdout\<close> nor \<^verbatim>\<open>sys.stderr\<close> to a real
  stream. A tame run is confined.
\<close>

fun confined :: "effect list \<Rightarrow> bool" where
  "confined [] = True"
| "confined (Direct r s # es) = False"
| "confined (Rebind_stdout (Real r) # es) = False"
| "confined (Rebind_stderr (Real r) # es) = False"
| "confined (e # es) = confined es"

text \<open>The text a run wrote through \<^verbatim>\<open>sys.stdout\<close>, and through \<^verbatim>\<open>sys.stderr\<close>, in order.\<close>

fun out_text :: "effect list \<Rightarrow> string" where
  "out_text [] = []"
| "out_text (Out s # es) = s @ out_text es"
| "out_text (e # es) = out_text es"

fun err_text :: "effect list \<Rightarrow> string" where
  "err_text [] = []"
| "err_text (Err s # es) = s @ err_text es"
| "err_text (e # es) = err_text es"

text \<open>
  What a real stream received, in order, from the kernel and from the executed code; what
  the kernel alone wrote to it; and what was read from the standard input.
\<close>

fun written :: "real_stream \<Rightarrow> io_event list \<Rightarrow> string list" where
  "written r [] = []"
| "written r (Write r' s # es) = (if r' = r then s # written r es else written r es)"
| "written r (Code_write r' s # es) = (if r' = r then s # written r es else written r es)"
| "written r (e # es) = written r es"

fun kernel_written :: "real_stream \<Rightarrow> io_event list \<Rightarrow> string list" where
  "kernel_written r [] = []"
| "kernel_written r (Write r' s # es) =
     (if r' = r then s # kernel_written r es else kernel_written r es)"
| "kernel_written r (e # es) = kernel_written r es"

fun reads :: "io_event list \<Rightarrow> string list" where
  "reads [] = []"
| "reads (Read l # es) = l # reads es"
| "reads (e # es) = reads es"

subsection \<open>Notions for the statements\<close>

text \<open>
  The process is in its standard state when \<^verbatim>\<open>sys.stdout\<close> and \<^verbatim>\<open>sys.stderr\<close> are bound
  to the real streams, as they are when the process starts.
\<close>

definition standard :: "proc \<Rightarrow> bool" where
  "standard p = (sys_stdout p = Real Stdout \<and> sys_stderr p = Real Stderr)"

text \<open>
  The run made by the body of the \<^verbatim>\<open>with\<close>: the warnings of \<^verbatim>\<open>compile\<close>, if it wrote
  any, and then the run of \<^verbatim>\<open>exec\<close>, or the exception that \<^verbatim>\<open>compile\<close> raised.
\<close>

definition warning :: "string \<Rightarrow> effect list" where
  "warning ws = (if ws = [] then [] else [Err ws])"

definition attempt :: "'c runtime \<Rightarrow> pyval \<Rightarrow> pycontext \<Rightarrow> run" where
  "attempt rt code ctx =
     (case compile rt code of
        (ws, Inl e) \<Rightarrow> \<lparr>effects = warning ws, final_context = ctx, outcome = Raised e\<rparr>
      | (ws, Inr c) \<Rightarrow>
          \<lparr>effects = warning ws @ effects (exec rt c ctx),
           final_context = final_context (exec rt c ctx),
           outcome = outcome (exec rt c ctx)\<rparr>)"

text \<open>
  A run that \<^verbatim>\<open>execute_code\<close> turns into the response below: it is tame, it ends, and
  what it raises, if it raises, is an \<^verbatim>\<open>Exception\<close>.
\<close>

definition answered :: "run \<Rightarrow> bool" where
  "answered r =
     (tame (effects r) \<and>
      (case outcome r of
         Finished \<Rightarrow> True
       | Raised e \<Rightarrow> isinstance e ''Exception''
       | Hangs \<Rightarrow> False))"

definition response_of :: "'c runtime \<Rightarrow> run \<Rightarrow> response" where
  "response_of rt r =
     \<lparr>stdout = out_text (effects r), stderr = err_text (effects r),
      error = (case outcome r of Raised e \<Rightarrow> Some (format_exc rt e) | _ \<Rightarrow> None)\<rparr>"

text \<open>
  The process after a call with a tame run: the two buffers of the call are in the
  store, filled and open, and nothing else has changed.
\<close>

definition captured :: "proc \<Rightarrow> effect list \<Rightarrow> proc" where
  "captured p es =
     p\<lparr>store := store p @ [\<lparr>content = out_text es, closed = False\<rparr>,
                             \<lparr>content = err_text es, closed = False\<rparr>]\<rparr>"

text \<open>
  The process as the body of the \<^verbatim>\<open>with\<close> finds it (the two fresh buffers in the store,
  the two names bound to them) and as the \<^verbatim>\<open>with\<close> leaves it (the two names bound again
  to what they were bound to in \<open>p\<close>).
\<close>

definition inside :: "proc \<Rightarrow> proc" where
  "inside p =
     p\<lparr>store := store p @ [\<lparr>content = [], closed = False\<rparr>, \<lparr>content = [], closed = False\<rparr>],
       sys_stdout := StringIO (length (store p)), sys_stderr := StringIO (Suc (length (store p)))\<rparr>"

definition leave :: "proc \<Rightarrow> proc \<Rightarrow> proc" where
  "leave p q = q\<lparr>sys_stderr := sys_stderr p, sys_stdout := sys_stdout p\<rparr>"

text \<open>
  The lines read so far (reads at the end of the input give the empty string and are
  left out), and the lines of the input, read or still to be read.
\<close>

definition live_reads :: "io_event list \<Rightarrow> string list" where
  "live_reads t = filter (\<lambda>l. l \<noteq> []) (reads t)"




text \<open>What the loop does with a response: one line on \<^verbatim>\<open>sys.stdout\<close>, flushed.\<close>

definition reply :: "'c runtime \<Rightarrow> response \<Rightarrow> io_event list" where
  "reply rt r = [Write Stdout (json_dumps rt r @ [CHR 0x0A]), Flush Stdout]"



text \<open>
  Python's \<^verbatim>\<open>compile\<close> raises \<^verbatim>\<open>TypeError\<close>, having written nothing, when its first argument is not text
  (nor bytes nor a syntax tree, which no JSON text decodes to).
\<close>

definition is_text :: "pyval \<Rightarrow> bool" where
  "is_text v = (case v of PStr t \<Rightarrow> True | _ \<Rightarrow> False)"

definition rejects_non_text :: "'c runtime \<Rightarrow> bool" where
  "rejects_non_text rt =
     (\<forall>v. \<not> is_text v \<longrightarrow>
        (\<exists>e. compile rt v = ([], Inl e) \<and> isinstance e ''TypeError'' \<and> isinstance e ''Exception''))"

text \<open>
  \<^verbatim>\<open>exec\<close> puts the entry \<^verbatim>\<open>__builtins__\<close> into a dictionary that lacks it, before it
  runs anything.
\<close>

definition with_builtins :: "pyval \<Rightarrow> pycontext \<Rightarrow> pycontext" where
  "with_builtins b ctx = (if ctx ''__builtins__'' = None then ctx(''__builtins__'' \<mapsto> b) else ctx)"

section \<open>A reference runtime\<close>

text \<open>
  A small runtime to run the kernel on concrete input: the JSON codec on integers,
  strings, the three literals, arrays and objects, and a fragment of Python that has
  one-line programs of assignments, \<^verbatim>\<open>print\<close> calls with one argument, \<^verbatim>\<open>raise\<close>,
  \<^verbatim>\<open>pass\<close>, \<^verbatim>\<open>break\<close>, comparisons with \<^verbatim>\<open>is\<close>, \<^verbatim>\<open>import sys\<close> and writes to and
  closes of the streams of \<^verbatim>\<open>sys\<close>, over integer and string literals and names. On that fragment it does what
  CPython does; whatever lies outside is answered as a decoding error or a syntax error,
  which CPython need not do. The general theorems do not depend on it.
\<close>

subsection \<open>Exceptions of the runtime\<close>

definition JSONDecodeError :: "string \<Rightarrow> pyexc" where
  "JSONDecodeError m = PyExc [''JSONDecodeError'', ''ValueError'', ''Exception'', ''BaseException''] m"

definition SyntaxError :: "string \<Rightarrow> pyexc" where
  "SyntaxError m = PyExc [''SyntaxError'', ''Exception'', ''BaseException''] m"

definition TypeError :: "string \<Rightarrow> pyexc" where
  "TypeError m = PyExc [''TypeError'', ''Exception'', ''BaseException''] m"

definition NameError :: "string \<Rightarrow> pyexc" where
  "NameError m = PyExc [''NameError'', ''Exception'', ''BaseException''] m"

text \<open>The built-in exception classes the fragment can raise, with their ancestors.\<close>

definition builtin_exceptions :: "(string \<times> string list) list" where
  "builtin_exceptions =
     [(''BaseException'', [''BaseException'']),
      (''Exception'', [''Exception'', ''BaseException'']),
      (''SystemExit'', [''SystemExit'', ''BaseException'']),
      (''KeyboardInterrupt'', [''KeyboardInterrupt'', ''BaseException'']),
      (''GeneratorExit'', [''GeneratorExit'', ''BaseException'']),
      (''ValueError'', [''ValueError'', ''Exception'', ''BaseException'']),
      (''TypeError'', [''TypeError'', ''Exception'', ''BaseException'']),
      (''NameError'', [''NameError'', ''Exception'', ''BaseException'']),
      (''RuntimeError'', [''RuntimeError'', ''Exception'', ''BaseException'']),
      (''KeyError'', [''KeyError'', ''LookupError'', ''Exception'', ''BaseException'']),
      (''IndexError'', [''IndexError'', ''LookupError'', ''Exception'', ''BaseException'']),
      (''ZeroDivisionError'',
         [''ZeroDivisionError'', ''ArithmeticError'', ''Exception'', ''BaseException''])]"

subsection \<open>Decimal numerals\<close>

definition digit_char :: "nat \<Rightarrow> char" where
  "digit_char d = ''0123456789'' ! d"

fun decimal :: "nat \<Rightarrow> string" where
  "decimal n = (if n < 10 then [digit_char n] else decimal (n div 10) @ [digit_char (n mod 10)])"

declare decimal.simps [simp del]

definition is_digit :: "char \<Rightarrow> bool" where
  "is_digit c = (CHR ''0'' \<le> c \<and> c \<le> CHR ''9'')"

definition digit_val :: "char \<Rightarrow> nat" where
  "digit_val c = of_char c - of_char (CHR ''0'')"

definition number_of :: "string \<Rightarrow> nat" where
  "number_of ds = foldl (\<lambda>n c. 10 * n + digit_val c) 0 ds"

subsection \<open>The JSON codec\<close>

definition is_ws :: "char \<Rightarrow> bool" where
  "is_ws c = (c = CHR '' '' \<or> c = CHR 0x09 \<or> c = CHR 0x0A \<or> c = CHR 0x0D)"

fun skip_ws :: "string \<Rightarrow> string" where
  "skip_ws [] = []"
| "skip_ws (c # cs) = (if is_ws c then skip_ws cs else c # cs)"

definition unescape :: "char \<Rightarrow> char option" where
  "unescape d =
     (if d = CHR 0x22 then Some (CHR 0x22)
      else if d = CHR 0x5C then Some (CHR 0x5C)
      else if d = CHR ''/'' then Some (CHR ''/'')
      else if d = CHR ''b'' then Some (CHR 0x08)
      else if d = CHR ''f'' then Some (CHR 0x0C)
      else if d = CHR ''n'' then Some (CHR 0x0A)
      else if d = CHR ''r'' then Some (CHR 0x0D)
      else if d = CHR ''t'' then Some (CHR 0x09)
      else None)"

text \<open>The rest of a string after its opening quote; \<open>acc\<close> is what was read, reversed.\<close>

fun scan_string :: "string \<Rightarrow> string \<Rightarrow> (string \<times> string) option" where
  "scan_string acc [] = None"
| "scan_string acc (c # cs) =
     (if c = CHR 0x22 then Some (rev acc, cs)
      else if c = CHR 0x5C then
        (case cs of
           [] \<Rightarrow> None
         | d # ds \<Rightarrow> (case unescape d of None \<Rightarrow> None | Some u \<Rightarrow> scan_string (u # acc) ds))
      else if (of_char c :: nat) < 32 then None
      else scan_string (c # acc) cs)"

definition scan_int :: "string \<Rightarrow> (int \<times> string) option" where
  "scan_int cs =
     (let neg = (take 1 cs = ''-'');
          cs1 = (if neg then drop 1 cs else cs);
          ds = takeWhile is_digit cs1;
          rest = dropWhile is_digit cs1
      in if ds = [] then None
         else if take 1 ds = ''0'' \<and> 1 < length ds then None
         else if take 1 rest = ''.'' \<or> take 1 rest = ''e'' \<or> take 1 rest = ''E'' then None
         else Some (if neg then - int (number_of ds) else int (number_of ds), rest))"

text \<open>
  The decoder proper. The first argument bounds the number of nested calls. The members
  of an object are collected latest first, so that \<open>map_of\<close> finds the last value given
  to a key, as a Python dictionary keeps it.
\<close>

fun parse_value :: "nat \<Rightarrow> string \<Rightarrow> (pyval \<times> string) option"
  and parse_elements :: "nat \<Rightarrow> pyval list \<Rightarrow> string \<Rightarrow> (pyval list \<times> string) option"
  and parse_members ::
    "nat \<Rightarrow> (string \<times> pyval) list \<Rightarrow> string \<Rightarrow> ((string \<times> pyval) list \<times> string) option"
  where
  "parse_value 0 cs = None"
| "parse_value (Suc n) cs =
     (if take 1 cs = [CHR 0x22] then
        (case scan_string [] (drop 1 cs) of
           None \<Rightarrow> None
         | Some (s, rest) \<Rightarrow> Some (PStr s, rest))
      else if take 1 cs = ''['' then
        (if take 1 (skip_ws (drop 1 cs)) = '']''
         then Some (PList [], drop 1 (skip_ws (drop 1 cs)))
         else (case parse_elements n [] (skip_ws (drop 1 cs)) of
                 None \<Rightarrow> None
               | Some (vs, rest) \<Rightarrow> Some (PList vs, rest)))
      else if take 1 cs = ''{'' then
        (if take 1 (skip_ws (drop 1 cs)) = ''}''
         then Some (PDict [], drop 1 (skip_ws (drop 1 cs)))
         else (case parse_members n [] (skip_ws (drop 1 cs)) of
                 None \<Rightarrow> None
               | Some (kvs, rest) \<Rightarrow> Some (PDict kvs, rest)))
      else if take 4 cs = ''null'' then Some (PNone, drop 4 cs)
      else if take 4 cs = ''true'' then Some (PBool True, drop 4 cs)
      else if take 5 cs = ''false'' then Some (PBool False, drop 5 cs)
      else (case scan_int cs of
              None \<Rightarrow> None
            | Some (i, rest) \<Rightarrow> Some (PInt i, rest)))"
| "parse_elements 0 acc cs = None"
| "parse_elements (Suc n) acc cs =
     (case parse_value n cs of
        None \<Rightarrow> None
      | Some (v, rest) \<Rightarrow>
          (if take 1 (skip_ws rest) = '','' then
             parse_elements n (v # acc) (skip_ws (drop 1 (skip_ws rest)))
           else if take 1 (skip_ws rest) = '']'' then
             Some (rev (v # acc), drop 1 (skip_ws rest))
           else None))"
| "parse_members 0 acc cs = None"
| "parse_members (Suc n) acc cs =
     (if take 1 cs = [CHR 0x22] then
        (case scan_string [] (drop 1 cs) of
           None \<Rightarrow> None
         | Some (k, rest) \<Rightarrow>
             (if take 1 (skip_ws rest) = '':'' then
                (case parse_value n (skip_ws (drop 1 (skip_ws rest))) of
                   None \<Rightarrow> None
                 | Some (v, rest') \<Rightarrow>
                     (if take 1 (skip_ws rest') = '','' then
                        parse_members n ((k, v) # acc) (skip_ws (drop 1 (skip_ws rest')))
                      else if take 1 (skip_ws rest') = ''}'' then
                        Some ((k, v) # acc, drop 1 (skip_ws rest'))
                      else None))
              else None))
      else None)"

definition ref_loads :: "string \<Rightarrow> pyexc + pyval" where
  "ref_loads s =
     (case parse_value (2 * length s + 2) (skip_ws s) of
        None \<Rightarrow> Inl (JSONDecodeError ''Expecting value'')
      | Some (v, rest) \<Rightarrow>
          if skip_ws rest = [] then Inr v else Inl (JSONDecodeError ''Extra data''))"

definition hex_digit :: "nat \<Rightarrow> char" where
  "hex_digit d = ''0123456789abcdef'' ! d"

definition escape_char :: "char \<Rightarrow> string" where
  "escape_char c =
     (if c = CHR 0x22 then [CHR 0x5C, CHR 0x22]
      else if c = CHR 0x5C then [CHR 0x5C, CHR 0x5C]
      else if c = CHR 0x0A then [CHR 0x5C, CHR ''n'']
      else if c = CHR 0x0D then [CHR 0x5C, CHR ''r'']
      else if c = CHR 0x09 then [CHR 0x5C, CHR ''t'']
      else if c = CHR 0x08 then [CHR 0x5C, CHR ''b'']
      else if c = CHR 0x0C then [CHR 0x5C, CHR ''f'']
      else if (of_char c :: nat) < 32 \<or> 126 < (of_char c :: nat) then
        [CHR 0x5C, CHR ''u'', CHR ''0'', CHR ''0'',
         hex_digit (of_char c div 16), hex_digit (of_char c mod 16)]
      else [c])"

definition json_string :: "string \<Rightarrow> string" where
  "json_string s = [CHR 0x22] @ concat (map escape_char s) @ [CHR 0x22]"

definition ref_dumps :: "response \<Rightarrow> string" where
  \<open>ref_dumps r =
     ''{"stdout": '' @ json_string (stdout r) @
     '', "stderr": '' @ json_string (stderr r) @
     '', "error": '' @ (case error r of None \<Rightarrow> ''null'' | Some e \<Rightarrow> json_string e) @ ''}''\<close>

subsection \<open>The Python fragment: tokens\<close>

datatype token = TName string | TInt string | TStr string | TSym char

definition is_name_start :: "char \<Rightarrow> bool" where
  "is_name_start c =
     ((CHR ''a'' \<le> c \<and> c \<le> CHR ''z'') \<or> (CHR ''A'' \<le> c \<and> c \<le> CHR ''Z'') \<or> c = CHR ''_'')"

definition is_name_char :: "char \<Rightarrow> bool" where
  "is_name_char c = (is_name_start c \<or> is_digit c)"

definition is_symbol :: "char \<Rightarrow> bool" where
  "is_symbol c = (c \<in> set ''=();:,.+-*/<>[]{}'')"

text \<open>
  The tokens of one line. A string literal is in single or double quotes and has no
  backslash; a number is a run of digits, not followed by a letter. \<open>None\<close> is a line
  the fragment does not read.
\<close>

datatype lexmode = Idle | InName string | InInt string | InStr char string

definition from_idle :: "char \<Rightarrow> token list \<Rightarrow> (lexmode \<times> token list) option" where
  "from_idle c acc =
     (if c = CHR '' '' then Some (Idle, acc)
      else if is_name_start c then Some (InName [c], acc)
      else if is_digit c then Some (InInt [c], acc)
      else if c = CHR 0x27 \<or> c = CHR 0x22 then Some (InStr c [], acc)
      else if is_symbol c then Some (Idle, TSym c # acc)
      else None)"

fun lex_step :: "lexmode \<Rightarrow> token list \<Rightarrow> char \<Rightarrow> (lexmode \<times> token list) option" where
  "lex_step Idle acc c = from_idle c acc"
| "lex_step (InName n) acc c =
     (if is_name_char c then Some (InName (c # n), acc) else from_idle c (TName (rev n) # acc))"
| "lex_step (InInt d) acc c =
     (if is_digit c then Some (InInt (c # d), acc)
      else if is_name_start c then None
      else from_idle c (TInt (rev d) # acc))"
| "lex_step (InStr q t) acc c =
     (if c = q then Some (Idle, TStr (rev t) # acc)
      else if c = CHR 0x5C \<or> c = CHR 0x0A then None
      else Some (InStr q (c # t), acc))"

fun lex_end :: "lexmode \<Rightarrow> token list \<Rightarrow> token list option" where
  "lex_end Idle acc = Some (rev acc)"
| "lex_end (InName n) acc = Some (rev (TName (rev n) # acc))"
| "lex_end (InInt d) acc = Some (rev (TInt (rev d) # acc))"
| "lex_end (InStr q t) acc = None"

fun lexer :: "lexmode \<Rightarrow> token list \<Rightarrow> string \<Rightarrow> token list option" where
  "lexer m acc [] = lex_end m acc"
| "lexer m acc (c # cs) =
     (case lex_step m acc c of
        None \<Rightarrow> None
      | Some (m', acc') \<Rightarrow> lexer m' acc' cs)"

subsection \<open>The Python fragment: programs\<close>

datatype atom = Num int | Str string | Const pyval | Name string

datatype stmt =
    Assign string atom
  | Print atom
  | Raise string "atom option"
  | Pass
  | Is atom atom
  | Break
  | Import_sys
  | Stream_write string string atom
  | Stream_close string string

definition py_keywords :: "string list" where
  "py_keywords =
     [''False'', ''None'', ''True'', ''and'', ''as'', ''assert'', ''async'', ''await'',
      ''break'', ''class'', ''continue'', ''def'', ''del'', ''elif'', ''else'', ''except'',
      ''finally'', ''for'', ''from'', ''global'', ''if'', ''import'', ''in'', ''is'',
      ''lambda'', ''nonlocal'', ''not'', ''or'', ''pass'', ''raise'', ''return'', ''try'',
      ''while'', ''with'', ''yield'']"

fun parse_atom :: "token \<Rightarrow> atom option" where
  "parse_atom (TInt d) =
     (if take 1 d = ''0'' \<and> number_of d \<noteq> 0 then None else Some (Num (int (number_of d))))"
| "parse_atom (TStr t) = Some (Str t)"
| "parse_atom (TName x) =
     (if x = ''None'' then Some (Const PNone)
      else if x = ''True'' then Some (Const (PBool True))
      else if x = ''False'' then Some (Const (PBool False))
      else if x \<in> set py_keywords then None
      else Some (Name x))"
| "parse_atom (TSym c) = None"

text \<open>
  The statements of the fragment, by their number of tokens: \<^verbatim>\<open>pass\<close>, \<^verbatim>\<open>break\<close>;
  \<^verbatim>\<open>raise C\<close>, \<^verbatim>\<open>import sys\<close>; \<^verbatim>\<open>x = a\<close>, \<^verbatim>\<open>a is b\<close>; \<^verbatim>\<open>print(a)\<close>; \<^verbatim>\<open>raise C(a)\<close>;
  \<^verbatim>\<open>m.s.close()\<close>; \<^verbatim>\<open>m.s.write(a)\<close>, where \<^verbatim>\<open>s\<close> is one of the streams of the
  module \<^verbatim>\<open>sys\<close>.
\<close>

definition stream_names :: "string list" where
  "stream_names = [''stdout'', ''stderr'', ''__stdout__'', ''__stderr__'']"

definition parse_stmt :: "token list \<Rightarrow> stmt option" where
  "parse_stmt ts =
     (case ts of
        [TName k] \<Rightarrow>
          if k = ''pass'' then Some Pass else if k = ''break'' then Some Break else None
      | [TName k, TName c] \<Rightarrow>
          if k = ''raise'' \<and> c \<notin> set py_keywords then Some (Raise c None)
          else if k = ''import'' \<and> c = ''sys'' then Some Import_sys
          else None
      | [TName x, TSym c, a] \<Rightarrow>
          if c = CHR ''='' \<and> x \<notin> set py_keywords then map_option (Assign x) (parse_atom a)
          else None
      | [a, TName k, b] \<Rightarrow>
          if k = ''is'' then
            (case (parse_atom a, parse_atom b) of
               (Some l, Some r) \<Rightarrow> Some (Is l r)
             | _ \<Rightarrow> None)
          else None
      | [TName f, TSym l, a, TSym r] \<Rightarrow>
          if f = ''print'' \<and> l = CHR ''('' \<and> r = CHR '')'' then map_option Print (parse_atom a)
          else None
      | [TName k, TName c, TSym l, a, TSym r] \<Rightarrow>
          if k = ''raise'' \<and> c \<notin> set py_keywords \<and> l = CHR ''('' \<and> r = CHR '')''
          then map_option (\<lambda>a. Raise c (Some a)) (parse_atom a)
          else None
      | [TName m, TSym d1, TName s, TSym d2, TName f, TSym l, TSym r] \<Rightarrow>
          if m \<notin> set py_keywords \<and> d1 = CHR ''.'' \<and> d2 = CHR ''.'' \<and> l = CHR ''('' \<and> r = CHR '')''
             \<and> f = ''close'' \<and> (s = ''stdout'' \<or> s = ''stderr'')
          then Some (Stream_close m s)
          else None
      | [TName m, TSym d1, TName s, TSym d2, TName f, TSym l, a, TSym r] \<Rightarrow>
          if m \<notin> set py_keywords \<and> d1 = CHR ''.'' \<and> d2 = CHR ''.'' \<and> l = CHR ''('' \<and> r = CHR '')''
             \<and> f = ''write'' \<and> s \<in> set stream_names
          then map_option (Stream_write m s) (parse_atom a)
          else None
      | _ \<Rightarrow> None)"

text \<open>The statements of a line are separated by semicolons; one may end the line.\<close>

fun split_stmts :: "token list \<Rightarrow> token list \<Rightarrow> token list list" where
  "split_stmts cur [] = [rev cur]"
| "split_stmts cur (t # ts) =
     (if t = TSym (CHR '';'') then rev cur # split_stmts [] ts else split_stmts (t # cur) ts)"

fun parse_all :: "token list list \<Rightarrow> stmt list option" where
  "parse_all [] = Some []"
| "parse_all (ts # tss) =
     (case parse_stmt ts of
        None \<Rightarrow> None
      | Some st \<Rightarrow> map_option ((#) st) (parse_all tss))"

definition parse_program :: "string \<Rightarrow> stmt list option" where
  "parse_program src =
     (case lexer Idle [] src of
        None \<Rightarrow> None
      | Some ts \<Rightarrow>
          if ts = [] then Some []
          else (let segs = split_stmts [] ts
                in parse_all (if last segs = [] then butlast segs else segs)))"

text \<open>
  After parsing, the compiler goes through the statements in order. It writes a warning
  through \<^verbatim>\<open>sys.stderr\<close> for an \<^verbatim>\<open>is\<close> with a literal operand, and raises
  \<^verbatim>\<open>SyntaxError\<close> at a \<^verbatim>\<open>break\<close>, which is outside any loop here.
\<close>

definition is_literal :: "atom \<Rightarrow> bool" where
  "is_literal a = (case a of Num i \<Rightarrow> True | Str t \<Rightarrow> True | _ \<Rightarrow> False)"

definition is_warning :: string where
  \<open>is_warning = ''<string>:1: SyntaxWarning: "is" with a literal. Did you mean "=="?\<newline>''\<close>

fun check_stmts :: "stmt list \<Rightarrow> string \<Rightarrow> string \<times> pyexc option" where
  "check_stmts [] ws = (ws, None)"
| "check_stmts (Break # prog) ws =
     (ws, Some (SyntaxError ([CHR 0x27] @ ''break'' @ [CHR 0x27] @ '' outside loop (<string>, line 1)'')))"
| "check_stmts (Is l r # prog) ws =
     check_stmts prog (if is_literal l \<or> is_literal r then ws @ is_warning else ws)"
| "check_stmts (st # prog) ws = check_stmts prog ws"

text \<open>
  \<^verbatim>\<open>compile(code, "<string>", "exec")\<close>: anything but text is a \<^verbatim>\<open>TypeError\<close> (a value
  decoded from JSON is never bytes or a syntax tree).
\<close>

definition ref_compile :: "pyval \<Rightarrow> string \<times> (pyexc + stmt list)" where
  "ref_compile code =
     (case code of
        PStr src \<Rightarrow>
          (case parse_program src of
             None \<Rightarrow> ([], Inl (SyntaxError ''invalid syntax (<string>, line 1)''))
           | Some prog \<Rightarrow>
               (case check_stmts prog [] of
                  (ws, Some e) \<Rightarrow> (ws, Inl e)
                | (ws, None) \<Rightarrow> (ws, Inr prog)))
      | _ \<Rightarrow> ([], Inl (TypeError ''compile() arg 1 must be a string, bytes or AST object'')))"

subsection \<open>The Python fragment: execution\<close>

text \<open>
  The dictionary of the built-in module and the module \<^verbatim>\<open>sys\<close>, two objects of their
  own.
\<close>

definition builtins :: pyval where
  "builtins = PObject 0"

definition sys_module :: pyval where
  "sys_module = PObject 1"

fun py_str :: "pyval \<Rightarrow> string" where
  "py_str PNone = ''None''"
| "py_str (PBool b) = (if b then ''True'' else ''False'')"
| "py_str (PInt i) = (if i < 0 then ''-'' @ decimal (nat (- i)) else decimal (nat i))"
| "py_str (PFloat f) = f"
| "py_str (PStr t) = t"
| "py_str (PList vs) = ''<list>''"
| "py_str (PDict kvs) = ''<dict>''"
| "py_str (PObject n) = ''<object>''"

fun eval_atom :: "atom \<Rightarrow> pycontext \<Rightarrow> pyexc + pyval" where
  "eval_atom (Num i) ctx = Inr (PInt i)"
| "eval_atom (Str t) ctx = Inr (PStr t)"
| "eval_atom (Const v) ctx = Inr v"
| "eval_atom (Name x) ctx =
     (case ctx x of
        Some v \<Rightarrow> Inr v
      | None \<Rightarrow> Inl (NameError (''name '' @ [CHR 0x27] @ x @ [CHR 0x27] @ '' is not defined'')))"

text \<open>
  The state of a run: the dictionary, whether the run has closed the object behind
  \<^verbatim>\<open>sys.stdout\<close> and the one behind \<^verbatim>\<open>sys.stderr\<close>, and what it did so far, latest
  first.
\<close>

record runstate =
  rs_context :: pycontext
  out_closed :: bool
  err_closed :: bool
  done_so_far :: "effect list"

definition stop :: "runstate \<Rightarrow> outcome \<Rightarrow> run" where
  "stop st oc = \<lparr>effects = rev (done_so_far st), final_context = rs_context st, outcome = oc\<rparr>"

definition closed_file :: pyexc where
  "closed_file = ValueError ''I/O operation on closed file''"

text \<open>
  What a write to the stream \<open>s\<close> of \<^verbatim>\<open>sys\<close> does: the effect, or the exception of a
  write to a stream that the run has closed.
\<close>

definition stream_write :: "string \<Rightarrow> string \<Rightarrow> runstate \<Rightarrow> pyexc + effect" where
  "stream_write s t st =
     (if s = ''stdout'' then (if out_closed st then Inl closed_file else Inr (Out t))
      else if s = ''stderr'' then (if err_closed st then Inl closed_file else Inr (Err t))
      else if s = ''__stdout__'' then Inr (Direct Stdout t)
      else Inr (Direct Stderr t))"

text \<open>
  The name of a module in a statement \<^verbatim>\<open>m.s.write(a)\<close>: it must be bound, and what it is
  bound to must be the module \<^verbatim>\<open>sys\<close>, as no other value of the fragment has streams.
\<close>

definition lookup_sys :: "string \<Rightarrow> string \<Rightarrow> pycontext \<Rightarrow> pyexc option" where
  "lookup_sys m s ctx =
     (case ctx m of
        None \<Rightarrow> Some (NameError (''name '' @ [CHR 0x27] @ m @ [CHR 0x27] @ '' is not defined''))
      | Some v \<Rightarrow>
          if v = sys_module then None
          else Some (AttributeError ([CHR 0x27] @ type_name v @ [CHR 0x27]
                       @ '' object has no attribute '' @ [CHR 0x27] @ s @ [CHR 0x27])))"

text \<open>
  The statements in turn. A name bound in the dictionary hides the built-in of that
  name, and no value of the fragment can be called or raised.
\<close>

fun run_stmts :: "stmt list \<Rightarrow> runstate \<Rightarrow> run" where
  "run_stmts [] st = stop st Finished"
| "run_stmts (Assign x a # prog) st =
     (case eval_atom a (rs_context st) of
        Inl e \<Rightarrow> stop st (Raised e)
      | Inr v \<Rightarrow> run_stmts prog (st\<lparr>rs_context := (rs_context st)(x \<mapsto> v)\<rparr>))"
| "run_stmts (Print a # prog) st =
     (case rs_context st ''print'' of
        Some f \<Rightarrow>
          stop st (Raised (TypeError ([CHR 0x27] @ type_name f @ [CHR 0x27]
                     @ '' object is not callable'')))
      | None \<Rightarrow>
          (case eval_atom a (rs_context st) of
             Inl e \<Rightarrow> stop st (Raised e)
           | Inr v \<Rightarrow>
               (case stream_write ''stdout'' (py_str v @ [CHR 0x0A]) st of
                  Inl e \<Rightarrow> stop st (Raised e)
                | Inr eff \<Rightarrow> run_stmts prog (st\<lparr>done_so_far := eff # done_so_far st\<rparr>))))"
| "run_stmts (Raise c arg # prog) st =
     stop st (Raised
        (case rs_context st c of
           Some v \<Rightarrow> TypeError ''exceptions must derive from BaseException''
         | None \<Rightarrow>
             (case map_of builtin_exceptions c of
                None \<Rightarrow> NameError (''name '' @ [CHR 0x27] @ c @ [CHR 0x27] @ '' is not defined'')
              | Some mro \<Rightarrow>
                  (case arg of
                     None \<Rightarrow> PyExc mro []
                   | Some a \<Rightarrow>
                       (case eval_atom a (rs_context st) of
                          Inl e \<Rightarrow> e
                        | Inr v \<Rightarrow> PyExc mro (py_str v))))))"
| "run_stmts (Pass # prog) st = run_stmts prog st"
| "run_stmts (Is l r # prog) st =
     (case eval_atom l (rs_context st) of
        Inl e \<Rightarrow> stop st (Raised e)
      | Inr v \<Rightarrow>
          (case eval_atom r (rs_context st) of
             Inl e \<Rightarrow> stop st (Raised e)
           | Inr w \<Rightarrow> run_stmts prog st))"
| "run_stmts (Break # prog) st = run_stmts prog st"
| "run_stmts (Import_sys # prog) st =
     run_stmts prog (st\<lparr>rs_context := (rs_context st)(''sys'' \<mapsto> sys_module)\<rparr>)"
| "run_stmts (Stream_write m s a # prog) st =
     (case lookup_sys m s (rs_context st) of
        Some e \<Rightarrow> stop st (Raised e)
      | None \<Rightarrow>
          (case eval_atom a (rs_context st) of
             Inl e \<Rightarrow> stop st (Raised e)
           | Inr v \<Rightarrow>
               (case v of
                  PStr t \<Rightarrow>
                    (case stream_write s t st of
                       Inl e \<Rightarrow> stop st (Raised e)
                     | Inr eff \<Rightarrow> run_stmts prog (st\<lparr>done_so_far := eff # done_so_far st\<rparr>))
                | _ \<Rightarrow>
                    stop st (Raised (TypeError (''string argument expected, got ''
                               @ [CHR 0x27] @ type_name v @ [CHR 0x27]))))))"
| "run_stmts (Stream_close m s # prog) st =
     (case lookup_sys m s (rs_context st) of
        Some e \<Rightarrow> stop st (Raised e)
      | None \<Rightarrow>
          if s = ''stdout''
          then run_stmts prog (st\<lparr>out_closed := True, done_so_far := Close_stdout # done_so_far st\<rparr>)
          else run_stmts prog (st\<lparr>err_closed := True, done_so_far := Close_stderr # done_so_far st\<rparr>))"

definition ref_exec :: "stmt list \<Rightarrow> pycontext \<Rightarrow> run" where
  "ref_exec prog ctx =
     run_stmts prog
       \<lparr>rs_context = with_builtins builtins ctx, out_closed = False, err_closed = False,
        done_so_far = []\<rparr>"

text \<open>
  \<^verbatim>\<open>traceback.format_exc()\<close>, shortened: the header, then a last line that names the
  class and gives \<^verbatim>\<open>str(e)\<close>. The lines for the frames, which quote the path of the
  source file, are left out, and for a \<^verbatim>\<open>SyntaxError\<close> the real text gives the location
  on lines of their own and not within the message.
\<close>

definition ref_format_exc :: "pyexc \<Rightarrow> string" where
  "ref_format_exc e =
     ''Traceback (most recent call last):'' @ [CHR 0x0A]
       @ (case exc_mro e of [] \<Rightarrow> [] | c # cs \<Rightarrow> c)
       @ (if exc_str e = [] then [] else '': '' @ exc_str e) @ [CHR 0x0A]"

definition ref_rt :: "stmt list runtime" where
  "ref_rt = \<lparr>json_loads = ref_loads, json_dumps = ref_dumps, compile = ref_compile,
             exec = ref_exec, format_exc = ref_format_exc\<rparr>"

section \<open>Properties of the kernel\<close>

subsection \<open>One call\<close>

lemma warn_warning: "warn ws p = fold perform (warning ws) p"
  by (simp add: warn_def warning_def)

lemma with_body_attempt:
  "with_body rt code ctx p =
     (outcome (attempt rt code ctx), final_context (attempt rt code ctx),
      fold perform (effects (attempt rt code ctx)) p)"
  by (simp add: with_body_def attempt_def warn_warning Let_def split: prod.splits sum.splits)

lemma execute_code_unfold:
  "execute_code rt code ctx p =
     (let r = attempt rt code ctx;
          q = leave p (fold perform (effects r) (inside p))
      in case outcome r of
           Hangs \<Rightarrow> Diverged
         | Finished \<Rightarrow>
             build_response (StringIO (length (store p))) (StringIO (Suc (length (store p))))
               None (final_context r) q
         | Raised e \<Rightarrow>
             if isinstance e ''Exception''
             then build_response (StringIO (length (store p))) (StringIO (Suc (length (store p))))
                    (Some (format_exc rt e)) (final_context r) q
             else Propagated e (final_context r) q)"
  by (cases "outcome (attempt rt code ctx)")
     (simp_all add: execute_code_def new_StringIO_def redirect_stdout_def redirect_stderr_def
        with_body_attempt Let_def inside_def leave_def)

lemma fold_perform_tame:
  assumes "tame es" "sys_stdout p = StringIO a" "sys_stderr p = StringIO b" "a \<noteq> b"
    "a < length (store p)" "b < length (store p)"
    "\<not> closed (store p ! a)" "\<not> closed (store p ! b)"
  shows "fold perform es p =
      p\<lparr>store := (store p)[a := (store p ! a)\<lparr>content := content (store p ! a) @ out_text es\<rparr>,
                             b := (store p ! b)\<lparr>content := content (store p ! b) @ err_text es\<rparr>]\<rparr>"
  using assms
proof (induction es arbitrary: p rule: tame.induct)
  case 1
  then show ?case by simp
next
  case (2 s es)
  let ?q = "p\<lparr>store := (store p)[a := (store p ! a)\<lparr>content := content (store p ! a) @ s\<rparr>]\<rparr>"
  have "fold perform (Out s # es) p = fold perform es ?q"
    using 2(3-) by (simp add: append_to_def)
  also have "\<dots> = ?q\<lparr>store := (store ?q)[a := (store ?q ! a)\<lparr>content := content (store ?q ! a) @ out_text es\<rparr>,
                             b := (store ?q ! b)\<lparr>content := content (store ?q ! b) @ err_text es\<rparr>]\<rparr>"
    using 2(2-) by (intro 2(1)) simp_all
  finally show ?case using 2(3-) by (simp add: list_update_swap)
next
  case (3 s es)
  let ?q = "p\<lparr>store := (store p)[b := (store p ! b)\<lparr>content := content (store p ! b) @ s\<rparr>]\<rparr>"
  have "fold perform (Err s # es) p = fold perform es ?q"
    using 3(3-) by (simp add: append_to_def)
  also have "\<dots> = ?q\<lparr>store := (store ?q)[a := (store ?q ! a)\<lparr>content := content (store ?q ! a) @ out_text es\<rparr>,
                             b := (store ?q ! b)\<lparr>content := content (store ?q ! b) @ err_text es\<rparr>]\<rparr>"
    using 3(2-) by (intro 3(1)) simp_all
  finally show ?case using 3(3-)
    by (simp add: list_update_swap[of b a, symmetric])
qed simp_all

lemma fold_perform_inside:
  "tame es \<Longrightarrow> leave p (fold perform es (inside p)) = captured p es"
  by (subst fold_perform_tame[where a="length (store p)" and b="Suc (length (store p))"])
     (simp_all add: inside_def leave_def captured_def nth_append list_update_append)

lemma build_response_captured:
  "build_response (StringIO (length (store p))) (StringIO (Suc (length (store p)))) err ctx
     (captured p es) =
   Returned \<lparr>stdout = out_text es, stderr = err_text es, error = err\<rparr> ctx (captured p es)"
  by (simp add: build_response_def captured_def nth_append)

lemma execute_code_eq:
  "tame (effects (attempt rt code ctx)) \<Longrightarrow>
   execute_code rt code ctx p =
     (let r = attempt rt code ctx
      in case outcome r of
           Hangs \<Rightarrow> Diverged
         | Finished \<Rightarrow> Returned (response_of rt r) (final_context r) (captured p (effects r))
         | Raised e \<Rightarrow>
             if isinstance e ''Exception''
             then Returned (response_of rt r) (final_context r) (captured p (effects r))
             else Propagated e (final_context r) (captured p (effects r)))"
  by (cases "outcome (attempt rt code ctx)")
     (simp_all add: execute_code_unfold Let_def fold_perform_inside build_response_captured
        response_of_def)

lemma execute_code_answered:
  "answered (attempt rt code ctx) \<Longrightarrow>
   execute_code rt code ctx p =
     Returned (response_of rt (attempt rt code ctx)) (final_context (attempt rt code ctx))
       (captured p (effects (attempt rt code ctx)))"
  by (auto simp: execute_code_eq answered_def Let_def split: outcome.splits)

subsection \<open>One pass of the loop, and an exchange\<close>

lemma captured_fields [simp]:
  "sys_stdout (captured p es) = sys_stdout p"
  "sys_stderr (captured p es) = sys_stderr p"
  "trace (captured p es) = trace p"
  "stdin (captured p es) = stdin p"
  by (simp_all add: captured_def)

lemma standard_captured [simp]: "standard (captured p es) = standard p"
  by (simp add: standard_def)

lemma standard_trace [simp]: "standard (p\<lparr>trace := t\<rparr>) = standard p"
  by (simp add: standard_def)

lemma standard_stdin [simp]: "standard (p\<lparr>stdin := t\<rparr>) = standard p"
  by (simp add: standard_def)

lemma captured_stdin [simp]: "captured (p\<lparr>stdin := ls\<rparr>) es = (captured p es)\<lparr>stdin := ls\<rparr>"
  by (simp add: captured_def)

lemma step_answered:
  assumes "json_loads rt line = Inr request" "request_get request ''code'' (PStr []) = Inr code"
    "answered (attempt rt code ctx)" "standard p"
  shows "step rt line ctx p =
     Next (final_context (attempt rt code ctx))
       ((captured p (effects (attempt rt code ctx)))
          \<lparr>trace := trace p @ reply rt (response_of rt (attempt rt code ctx))\<rparr>)"
  using assms by (simp add: step_def execute_code_answered standard_def reply_def)

lemma execute_code_compile_error:
  assumes "compile rt code = (ws, Inl e)" "isinstance e ''Exception''"
  shows "execute_code rt code ctx p =
     Returned \<lparr>stdout = [], stderr = ws, error = Some (format_exc rt e)\<rparr> ctx
       (captured p (warning ws))"
proof -
  have a: "attempt rt code ctx = \<lparr>effects = warning ws, final_context = ctx, outcome = Raised e\<rparr>"
    using assms(1) by (simp add: attempt_def)
  have t: "tame (warning ws)" "out_text (warning ws) = []" "err_text (warning ws) = ws"
    by (simp_all add: warning_def)
  show ?thesis using assms(2) t by (simp add: execute_code_eq a response_of_def)
qed

lemma while_True_loop: "while_True rt ctx p = loop rt (stdin p) ctx p"
  by (simp add: loop_def)

lemma loop_Nil: "loop rt [] ctx p = (Eof, ctx, p\<lparr>stdin := [], trace := trace p @ [Read []]\<rparr>)"
  by (simp add: loop_def while_True.simps readline_def)

lemma loop_Cons:
  "line \<noteq> [] \<Longrightarrow>
   loop rt (line # rest) ctx p =
     (case step rt line ctx (p\<lparr>stdin := rest, trace := trace p @ [Read line]\<rparr>) of
        Next ctx' p' \<Rightarrow> loop rt (stdin p') ctx' p'
      | Leave x ctx' p' \<Rightarrow> (x, ctx', p'))"
  by (subst loop_def, subst while_True.simps)
     (simp add: readline_def while_True_loop split: step_result.splits)

lemma loop_empty_line:
  "loop rt ([] # rest) ctx p = (Eof, ctx, p\<lparr>stdin := rest, trace := trace p @ [Read []]\<rparr>)"
  by (subst loop_def, subst while_True.simps) (simp add: readline_def)

lemma loop_stdin [simp]: "loop rt lines ctx (p\<lparr>stdin := ls\<rparr>) = loop rt lines ctx p"
  by (simp add: loop_def)

lemma step_compile_error:
  assumes "json_loads rt line = Inr (PDict kvs)" "map_of kvs ''code'' = Some code"
    "compile rt code = (ws, Inl e)" "isinstance e ''Exception''" "standard p"
  shows "step rt line ctx p =
     Next ctx ((captured p (warning ws))
       \<lparr>trace := trace p @ reply rt \<lparr>stdout = [], stderr = ws, error = Some (format_exc rt e)\<rparr>\<rparr>)"
  using assms by (simp add: step_def execute_code_compile_error standard_def reply_def)

lemma written_append [simp]: "written r (xs @ ys) = written r xs @ written r ys"
  by (induction r xs rule: written.induct) simp_all

lemma kernel_written_append [simp]:
  "kernel_written r (xs @ ys) = kernel_written r xs @ kernel_written r ys"
  by (induction r xs rule: kernel_written.induct) simp_all

lemma reads_append [simp]: "reads (xs @ ys) = reads xs @ reads ys"
  by (induction xs rule: reads.induct) simp_all

lemma step_skipped:
  assumes "json_loads rt line = Inl e" "isinstance e ''JSONDecodeError''"
  shows "step rt line ctx p = Next ctx p"
  using assms by (simp add: step_def handlers_def)



subsection \<open>How the loop ends\<close>



lemma live_reads_append [simp]: "live_reads (xs @ ys) = live_reads xs @ live_reads ys"
  by (simp add: live_reads_def)




lemma standard_leave [simp]: "standard (leave p q) = standard p"
  by (simp add: standard_def leave_def)







subsection \<open>Tame and confined runs\<close>

lemma tame_append [simp]: "tame (xs @ ys) = (tame xs \<and> tame ys)"
  by (induction xs rule: tame.induct) simp_all

lemma out_text_append [simp]: "out_text (xs @ ys) = out_text xs @ out_text ys"
  by (induction xs rule: out_text.induct) simp_all

lemma err_text_append [simp]: "err_text (xs @ ys) = err_text xs @ err_text ys"
  by (induction xs rule: err_text.induct) simp_all

lemma warning_texts [simp]:
  "tame (warning ws)" "out_text (warning ws) = []" "err_text (warning ws) = ws"
  by (simp_all add: warning_def)

lemma tame_confined: "tame es \<Longrightarrow> confined es"
  by (induction es rule: tame.induct) simp_all








subsection \<open>The reference runtime\<close>

lemma ref_rt_fields [simp]:
  "json_loads ref_rt = ref_loads" "json_dumps ref_rt = ref_dumps" "compile ref_rt = ref_compile"
  "exec ref_rt = ref_exec" "format_exc ref_rt = ref_format_exc"
  by (simp_all add: ref_rt_def)

lemma standard_initial [simp]: "standard initial_proc"
  by (simp add: standard_def initial_proc_def)

lemma isinstance_PyExc [simp]: "isinstance (PyExc mro m) c = (c \<in> set mro)"
  by (simp add: isinstance_def)

lemma loads_x1:
  \<open>ref_loads ''{"code":"x = 1"}\<newline>'' =
     Inr (PDict [(''code'', PStr ''x = 1'')])\<close>
  by code_simp







lemma loads_list:
  \<open>ref_loads ''[1]\<newline>'' = Inr (PList [PInt 1])\<close>
  by code_simp

lemma loads_bad:
  \<open>ref_loads ''not json\<newline>'' = Inl (JSONDecodeError ''Expecting value'')\<close>
  by code_simp

lemma loads_empty:
  \<open>ref_loads ''{"code":""}\<newline>'' = Inr (PDict [(''code'', PStr [])])\<close>
  by code_simp

lemma loads_nocode:
  \<open>ref_loads ''{}\<newline>'' = Inr (PDict [])\<close>
  by code_simp

lemma loads_five:
  \<open>ref_loads ''{"code": 5}\<newline>'' = Inr (PDict [(''code'', PInt 5)])\<close>
  by code_simp

lemma compile_x1:
  \<open>ref_compile (PStr ''x = 1'') = ([], Inr [Assign ''x'' (Num 1)])\<close>
  by code_simp








lemma compile_is_break:
  \<open>ref_compile (PStr ''1 is 1; break'') =
     (''<string>:1: SyntaxWarning: "is" with a literal. Did you mean "=="?\<newline>'',
      Inl (SyntaxError '''break' outside loop (<string>, line 1)''))\<close>
  by code_simp

lemma compile_def:
  \<open>ref_compile (PStr ''def f(:'') = ([], Inl (SyntaxError ''invalid syntax (<string>, line 1)''))\<close>
  by code_simp

lemma compile_empty:
  \<open>ref_compile (PStr []) = ([], Inr [])\<close>
  by code_simp

lemma compile_five:
  \<open>ref_compile (PInt 5) =
     ([], Inl (TypeError ''compile() arg 1 must be a string, bytes or AST object''))\<close>
  by code_simp

lemmas run_ref = main_def step_def execute_code_unfold attempt_def response_of_def ref_exec_def
  with_builtins_def reply_def initial_proc_def captured_def handlers_def builtin_exceptions_def
  ref_format_exc_def decimal.simps digit_char_def inside_def leave_def build_response_def
  warning_def stop_def stream_write_def lookup_sys_def append_to_def loop_Nil loop_Cons
  nth_append

lemma ref_rejects_non_text: "rejects_non_text ref_rt"
  unfolding rejects_non_text_def
proof (intro allI impI)
  fix v assume "\<not> is_text v"
  then have "ref_compile v =
      ([], Inl (TypeError ''compile() arg 1 must be a string, bytes or AST object''))"
    by (cases v) (simp_all add: ref_compile_def is_text_def)
  then show "\<exists>e. compile ref_rt v = ([], Inl e) \<and> isinstance e ''TypeError'' \<and>
      isinstance e ''Exception''"
    by (simp add: TypeError_def)
qed

lemma loads_def:
  \<open>ref_loads ''{"code":"def f(:"}\<newline>'' = Inr (PDict [(''code'', PStr ''def f(:'')])\<close>
  by code_simp




section \<open>The claims\<close>

subsection \<open>C1: the dictionary persists\<close>



subsection \<open>C2: exceptions of the executed code\<close>




subsection \<open>C3: output before a failure\<close>




subsection \<open>C4: a line that does not decode\<close>

text \<open>
  C4, as the specification has it: every line that is not a valid request object is
  passed over in silence. The loop does not do that for a line that is JSON text but not
  an object: \<^verbatim>\<open>json.loads\<close> succeeds, \<^verbatim>\<open>request.get\<close> raises \<^verbatim>\<open>AttributeError\<close>, the
  second \<^verbatim>\<open>except\<close> clause writes its message to the error stream and leaves the loop,
  and the request that follows is never read.
\<close>

theorem non_object_line_is_fatal:
  \<open>ref_loads ''[1]\<newline>'' = Inr (PList [PInt 1]) \<and>
   main ref_rt [''[1]\<newline>'', ''{"code":"x = 1"}\<newline>''] =
     (Fatal, Map.empty,
      \<lparr>sys_stdout = Real Stdout, sys_stderr = Real Stderr, store = [],
       stdin = [''{"code":"x = 1"}\<newline>''],
       trace = [Read ''[1]\<newline>'',
                Write Stderr ''Fatal Kernel Error: 'list' object has no attribute 'get'\<newline>'']\<rparr>)\<close>
  by (simp add: run_ref loads_list AttributeError_def)

text \<open>
  C4, amended. A line on which \<^verbatim>\<open>json.loads\<close> raises \<^verbatim>\<open>JSONDecodeError\<close> is passed
  over: the loop reads it and goes on to the rest of the input with the dictionary and
  the process as they were; nothing is written to either real stream.
\<close>

theorem undecodable_line_skipped:
  assumes "json_loads rt line = Inl e" and "isinstance e ''JSONDecodeError''" and "line \<noteq> []"
  shows "loop rt (line # rest) ctx p = loop rt rest ctx (p\<lparr>trace := trace p @ [Read line]\<rparr>)"
  using assms by (simp add: loop_Cons step_skipped) (simp add: loop_def)

text \<open>A line that is not JSON, then a request: only the request is answered.\<close>

theorem undecodable_line_skipped_witness:
  \<open>main ref_rt [''not json\<newline>'', ''{"code":"x = 1"}\<newline>''] =
     (Eof, [''__builtins__'' \<mapsto> builtins, ''x'' \<mapsto> PInt 1],
      \<lparr>sys_stdout = Real Stdout, sys_stderr = Real Stderr,
       store = [\<lparr>content = [], closed = False\<rparr>, \<lparr>content = [], closed = False\<rparr>],
       stdin = [],
       trace = [Read ''not json\<newline>'', Read ''{"code":"x = 1"}\<newline>'',
                Write Stdout (ref_dumps \<lparr>stdout = [], stderr = [], error = None\<rparr> @ ''\<newline>''),
                Flush Stdout, Read []]\<rparr>)\<close>
proof -
  have d: \<open>json_loads ref_rt ''not json\<newline>'' = Inl (JSONDecodeError ''Expecting value'')\<close>
    by (simp add: loads_bad)
  have i: "isinstance (JSONDecodeError ''Expecting value'') ''JSONDecodeError''"
    by (simp add: JSONDecodeError_def)
  have n: \<open>''not json\<newline>'' \<noteq> []\<close> by simp
  show ?thesis
    unfolding main_def undecodable_line_skipped[OF d i n]
    by (simp add: run_ref loads_x1 compile_x1)
qed

subsection \<open>C5: a snippet that does not compile\<close>

text \<open>
  C5, as the specification has it: when the text does not compile, \<^verbatim>\<open>stderr\<close> is empty.
  \<^verbatim>\<open>compile\<close> is called under the two redirections, and the compiler writes its
  warnings through \<^verbatim>\<open>sys.stderr\<close> before it raises: for the text \<^verbatim>\<open>1 is 1; break\<close> it
  warns about \<^verbatim>\<open>is\<close> with a literal, then raises \<^verbatim>\<open>SyntaxError\<close> for the \<^verbatim>\<open>break\<close>
  outside a loop, and the warning is the \<^verbatim>\<open>stderr\<close> of the response.
\<close>

theorem compile_warning_captured:
  \<open>ref_compile (PStr ''1 is 1; break'') =
     (''<string>:1: SyntaxWarning: "is" with a literal. Did you mean "=="?\<newline>'',
      Inl (SyntaxError '''break' outside loop (<string>, line 1)'')) \<and>
   execute_code ref_rt (PStr ''1 is 1; break'') Map.empty initial_proc =
     Returned
       \<lparr>stdout = [],
        stderr = ''<string>:1: SyntaxWarning: "is" with a literal. Did you mean "=="?\<newline>'',
        error = Some (''Traceback (most recent call last):\<newline>'' @
                      ''SyntaxError: 'break' outside loop (<string>, line 1)\<newline>'')\<rparr>
       Map.empty
       (captured initial_proc
          [Err ''<string>:1: SyntaxWarning: "is" with a literal. Did you mean "=="?\<newline>''])\<close>
  by (simp add: run_ref compile_is_break SyntaxError_def)

text \<open>
  C5, amended. When \<^verbatim>\<open>compile\<close> raises on the text of a request (a \<^verbatim>\<open>SyntaxError\<close>, which
  is an \<^verbatim>\<open>Exception\<close>), \<^verbatim>\<open>execute_code\<close> returns a response with empty \<^verbatim>\<open>stdout\<close>, with
  the warnings that the compiler wrote before it raised as \<^verbatim>\<open>stderr\<close> (none, for most
  texts) and with the formatted exception as \<^verbatim>\<open>error\<close>; the dictionary is returned as it
  was, and the result is the same whatever \<^verbatim>\<open>exec\<close> would do, so the dictionary was not
  consulted. The loop writes that response and goes on to the rest of the input with the
  same dictionary.
\<close>

theorem compile_failure_isolated:
  assumes "compile rt (PStr src) = (ws, Inl e)" and "isinstance e ''Exception''"
    and "json_loads rt line = Inr (PDict kvs)" and "map_of kvs ''code'' = Some (PStr src)"
    and "line \<noteq> []" and "standard p"
  shows "execute_code rt (PStr src) ctx q =
           Returned \<lparr>stdout = [], stderr = ws, error = Some (format_exc rt e)\<rparr> ctx
             (captured q (warning ws))
       \<and> execute_code (rt\<lparr>exec := ex\<rparr>) (PStr src) ctx q = execute_code rt (PStr src) ctx q
       \<and> loop rt (line # rest) ctx p =
           loop rt rest ctx
             ((captured p (warning ws))\<lparr>trace := trace p @ Read line #
                 reply rt \<lparr>stdout = [], stderr = ws, error = Some (format_exc rt e)\<rparr>\<rparr>)"
proof -
  have a: "execute_code rt (PStr src) ctx q =
           Returned \<lparr>stdout = [], stderr = ws, error = Some (format_exc rt e)\<rparr> ctx
             (captured q (warning ws))"
    using assms(1,2) by (rule execute_code_compile_error)
  have "compile (rt\<lparr>exec := ex\<rparr>) (PStr src) = (ws, Inl e)"
    using assms(1) by simp
  from execute_code_compile_error[OF this assms(2), of ctx q] a
  have b: "execute_code (rt\<lparr>exec := ex\<rparr>) (PStr src) ctx q = execute_code rt (PStr src) ctx q"
    by simp
  let ?p1 = "p\<lparr>stdin := rest, trace := trace p @ [Read line]\<rparr>"
  have "step rt line ctx ?p1 =
     Next ctx ((captured ?p1 (warning ws))
       \<lparr>trace := trace ?p1 @ reply rt \<lparr>stdout = [], stderr = ws, error = Some (format_exc rt e)\<rparr>\<rparr>)"
    using assms by (intro step_compile_error) simp_all
  then have c: "loop rt (line # rest) ctx p =
           loop rt rest ctx
             ((captured p (warning ws))\<lparr>trace := trace p @ Read line #
                 reply rt \<lparr>stdout = [], stderr = ws, error = Some (format_exc rt e)\<rparr>\<rparr>)"
    using assms(5) by (simp add: loop_Cons captured_def) (simp add: loop_def)
  from a b c show ?thesis by blast
qed

text \<open>
  The request \<^verbatim>\<open>{"code":"def f(:"}\<close> on the reference runtime, followed by a request
  that compiles: the first is answered by the syntax error alone, with both \<^verbatim>\<open>stdout\<close>
  and \<^verbatim>\<open>stderr\<close> empty, the second as usual.
\<close>

theorem compile_failure_isolated_witness:
  \<open>execute_code ref_rt (PStr ''def f(:'') Map.empty initial_proc =
      Returned \<lparr>stdout = [], stderr = [],
                error = Some (''Traceback (most recent call last):\<newline>'' @
                              ''SyntaxError: invalid syntax (<string>, line 1)\<newline>'')\<rparr>
        Map.empty (captured initial_proc [])
   \<and> written Stdout (trace (snd (snd (main ref_rt
         [''{"code":"def f(:"}\<newline>'', ''{"code":"x = 1"}\<newline>''])))) =
       [ref_dumps \<lparr>stdout = [], stderr = [],
                error = Some (''Traceback (most recent call last):\<newline>'' @
                              ''SyntaxError: invalid syntax (<string>, line 1)\<newline>'')\<rparr> @ ''\<newline>'',
        ref_dumps \<lparr>stdout = [], stderr = [], error = None\<rparr> @ ''\<newline>'']
   \<and> fst (snd (main ref_rt [''{"code":"def f(:"}\<newline>'', ''{"code":"x = 1"}\<newline>''])) =
       [''__builtins__'' \<mapsto> builtins, ''x'' \<mapsto> PInt 1]\<close>
proof -
  let ?e = "SyntaxError ''invalid syntax (<string>, line 1)''"
  have c: \<open>compile ref_rt (PStr ''def f(:'') = ([], Inl ?e)\<close>
    by (simp add: compile_def)
  have i: "isinstance ?e ''Exception''"
    by (simp add: SyntaxError_def)
  have d: \<open>json_loads ref_rt ''{"code":"def f(:"}\<newline>'' = Inr (PDict [(''code'', PStr ''def f(:'')])\<close>
    by (simp add: loads_def)
  have f: \<open>ref_format_exc ?e = ''Traceback (most recent call last):\<newline>'' @
                              ''SyntaxError: invalid syntax (<string>, line 1)\<newline>''\<close>
    by (simp add: ref_format_exc_def SyntaxError_def)
  note t = compile_failure_isolated[OF c i d _ _ standard_initial,
      of Map.empty initial_proc ref_exec \<open>[''{"code":"x = 1"}\<newline>'']\<close>, simplified, unfolded f]
  show ?thesis
    using t
    by (simp add: main_def loads_x1 compile_x1 step_def execute_code_unfold attempt_def
        response_of_def ref_exec_def with_builtins_def reply_def initial_proc_def captured_def
        warning_def stop_def inside_def leave_def build_response_def loop_Nil loop_Cons)
qed

subsection \<open>C6: empty code\<close>

text \<open>
  C6, as the specification has it: a request with empty or absent \<^verbatim>\<open>code\<close> does not
  change the dictionary. \<^verbatim>\<open>exec\<close> is still called, on the empty program, and \<^verbatim>\<open>exec\<close>
  puts \<^verbatim>\<open>__builtins__\<close> into a dictionary that lacks it: after the first request of a
  process, empty or not, the dictionary has that entry.
\<close>

theorem empty_code_binds_builtins:
  \<open>main ref_rt [''{"code":""}\<newline>''] =
     (Eof, [''__builtins__'' \<mapsto> builtins],
      \<lparr>sys_stdout = Real Stdout, sys_stderr = Real Stderr,
       store = [\<lparr>content = [], closed = False\<rparr>, \<lparr>content = [], closed = False\<rparr>],
       stdin = [],
       trace = [Read ''{"code":""}\<newline>'',
                Write Stdout (ref_dumps \<lparr>stdout = [], stderr = [], error = None\<rparr> @ ''\<newline>''),
                Flush Stdout, Read []]\<rparr>) \<and>
   fst (snd (main ref_rt [''{"code":""}\<newline>''])) ''__builtins__'' = Some builtins \<and>
   (Map.empty :: pycontext) ''__builtins__'' = None\<close>
  by (simp add: run_ref loads_empty compile_empty)

text \<open>
  C6, amended. For a request whose \<^verbatim>\<open>code\<close> is the empty string or absent (the default
  of \<^verbatim>\<open>request.get\<close> is the empty string), on a runtime that compiles the empty text
  without a warning and runs the empty program as Python does: the response has empty
  \<^verbatim>\<open>stdout\<close> and \<^verbatim>\<open>stderr\<close> and no \<^verbatim>\<open>error\<close>; no binding of the dictionary is changed or
  removed; the entry \<^verbatim>\<open>__builtins__\<close> is added when the dictionary lacks it, and a
  dictionary that has it stays as it is.
\<close>

theorem empty_code_no_op:
  assumes "json_loads rt line = Inr (PDict kvs)"
    and "map_of kvs ''code'' = None \<or> map_of kvs ''code'' = Some (PStr [])"
    and "compile rt (PStr []) = ([], Inr c)"
    and "exec rt c ctx = \<lparr>effects = [], final_context = with_builtins b ctx, outcome = Finished\<rparr>"
    and "standard p"
  shows "step rt line ctx p =
           Next (with_builtins b ctx)
             ((captured p [])\<lparr>trace := trace p @
                 reply rt \<lparr>stdout = [], stderr = [], error = None\<rparr>\<rparr>)
       \<and> (\<forall>x. x \<noteq> ''__builtins__'' \<longrightarrow> with_builtins b ctx x = ctx x)
       \<and> (ctx ''__builtins__'' \<noteq> None \<longrightarrow> with_builtins b ctx = ctx)"
proof -
  have g: "request_get (PDict kvs) ''code'' (PStr []) = Inr (PStr [])"
    using assms(2) by auto
  have a: "attempt rt (PStr []) ctx =
      \<lparr>effects = [], final_context = with_builtins b ctx, outcome = Finished\<rparr>"
    using assms(3,4) by (simp add: attempt_def warning_def)
  have ans: "answered (attempt rt (PStr []) ctx)"
    by (simp add: a answered_def)
  from step_answered[OF assms(1) g ans assms(5)]
  show ?thesis by (simp add: a response_of_def with_builtins_def)
qed

text \<open>
  The request \<^verbatim>\<open>{}\<close> in a dictionary without \<^verbatim>\<open>__builtins__\<close>, and the request
  \<^verbatim>\<open>{"code":""}\<close> in one that has it.
\<close>

theorem empty_code_no_op_witness:
  \<open>step ref_rt ''{}\<newline>'' [''x'' \<mapsto> PInt 1] initial_proc =
     Next [''x'' \<mapsto> PInt 1, ''__builtins__'' \<mapsto> builtins]
       ((captured initial_proc [])\<lparr>trace :=
           reply ref_rt \<lparr>stdout = [], stderr = [], error = None\<rparr>\<rparr>) \<and>
   step ref_rt ''{"code":""}\<newline>'' [''__builtins__'' \<mapsto> builtins, ''x'' \<mapsto> PInt 1] initial_proc =
     Next [''__builtins__'' \<mapsto> builtins, ''x'' \<mapsto> PInt 1]
       ((captured initial_proc [])\<lparr>trace :=
           reply ref_rt \<lparr>stdout = [], stderr = [], error = None\<rparr>\<rparr>)\<close>
proof -
  have c: "compile ref_rt (PStr []) = ([], Inr [])" by (simp add: compile_empty)
  have x: "exec ref_rt [] ctx =
      \<lparr>effects = [], final_context = with_builtins builtins ctx, outcome = Finished\<rparr>" for ctx
    by (simp add: ref_exec_def stop_def)
  have d1: \<open>json_loads ref_rt ''{}\<newline>'' = Inr (PDict [])\<close>
    by (simp add: loads_nocode)
  have d2: \<open>json_loads ref_rt ''{"code":""}\<newline>'' = Inr (PDict [(''code'', PStr [])])\<close>
    by (simp add: loads_empty)
  have m1: "map_of [] ''code'' = None \<or> map_of [] ''code'' = Some (PStr [])" by simp
  have m2: "map_of [(''code'', PStr [])] ''code'' = None \<or>
      map_of [(''code'', PStr [])] ''code'' = Some (PStr [])" by simp
  from empty_code_no_op[OF d1 m1 c x standard_initial, of "[''x'' \<mapsto> PInt 1]"]
       empty_code_no_op[OF d2 m2 c x standard_initial,
         of "[''__builtins__'' \<mapsto> builtins, ''x'' \<mapsto> PInt 1]"]
  show ?thesis
    by (simp add: with_builtins_def initial_proc_def)
qed

subsection \<open>C7: the capture scope\<close>




subsection \<open>C8: one response for each request, in order\<close>




subsection \<open>C9: the end of the input\<close>




subsection \<open>C10: a request whose code is not text\<close>

text \<open>
  C10. When the \<^verbatim>\<open>code\<close> of a decoded request is not text, \<^verbatim>\<open>compile\<close> raises
  \<^verbatim>\<open>TypeError\<close> inside the \<^verbatim>\<open>try\<close>; \<^verbatim>\<open>execute_code\<close> returns a response with empty
  \<^verbatim>\<open>stdout\<close> and \<^verbatim>\<open>stderr\<close> and that error, the dictionary is as it was, and the loop
  writes the response and goes on to the rest of the input.
\<close>

theorem non_text_code_answered:
  assumes "rejects_non_text rt" and "\<not> is_text v"
    and "json_loads rt line = Inr (PDict kvs)" and "map_of kvs ''code'' = Some v"
    and "line \<noteq> []" and "standard p"
  shows "\<exists>e. compile rt v = ([], Inl e) \<and> isinstance e ''TypeError''
       \<and> execute_code rt v ctx q =
           Returned \<lparr>stdout = [], stderr = [], error = Some (format_exc rt e)\<rparr> ctx (captured q [])
       \<and> loop rt (line # rest) ctx p =
           loop rt rest ctx
             ((captured p [])\<lparr>trace := trace p @ Read line #
                 reply rt \<lparr>stdout = [], stderr = [], error = Some (format_exc rt e)\<rparr>\<rparr>)"
proof -
  from assms(1,2) obtain e where e: "compile rt v = ([], Inl e)" "isinstance e ''TypeError''"
    "isinstance e ''Exception''"
    unfolding rejects_non_text_def by blast
  let ?p1 = "p\<lparr>stdin := rest, trace := trace p @ [Read line]\<rparr>"
  have "step rt line ctx ?p1 =
     Next ctx ((captured ?p1 (warning []))
       \<lparr>trace := trace ?p1 @ reply rt \<lparr>stdout = [], stderr = [], error = Some (format_exc rt e)\<rparr>\<rparr>)"
    using assms e by (intro step_compile_error) simp_all
  then have "loop rt (line # rest) ctx p =
           loop rt rest ctx
             ((captured p [])\<lparr>trace := trace p @ Read line #
                 reply rt \<lparr>stdout = [], stderr = [], error = Some (format_exc rt e)\<rparr>\<rparr>)"
    using assms(5) by (simp add: loop_Cons warning_def captured_def) (simp add: loop_def)
  with e execute_code_compile_error[OF e(1) e(3), of ctx q] show ?thesis
    by (auto simp: warning_def)
qed

text \<open>The request \<^verbatim>\<open>{"code": 5}\<close> on the reference runtime, then a request that runs.\<close>

theorem non_text_code_answered_witness:
  \<open>rejects_non_text ref_rt \<and> \<not> is_text (PInt 5) \<and>
   written Stdout (trace (snd (snd (main ref_rt
         [''{"code": 5}\<newline>'', ''{"code":"x = 1"}\<newline>''])))) =
     [ref_dumps \<lparr>stdout = [], stderr = [],
        error = Some (''Traceback (most recent call last):\<newline>'' @
           ''TypeError: compile() arg 1 must be a string, bytes or AST object\<newline>'')\<rparr> @ ''\<newline>'',
      ref_dumps \<lparr>stdout = [], stderr = [], error = None\<rparr> @ ''\<newline>'']\<close>
proof -
  have t: "\<not> is_text (PInt 5)" by (simp add: is_text_def)
  have d: \<open>json_loads ref_rt ''{"code": 5}\<newline>'' = Inr (PDict [(''code'', PInt 5)])\<close>
    by (simp add: loads_five)
  have m: "map_of [(''code'', PInt 5)] ''code'' = Some (PInt 5)" by simp
  have n: \<open>''{"code": 5}\<newline>'' \<noteq> []\<close> by simp
  from non_text_code_answered[OF ref_rejects_non_text t d m n standard_initial,
      of Map.empty initial_proc \<open>[''{"code":"x = 1"}\<newline>'']\<close>]
  obtain e where e: "compile ref_rt (PInt 5) = ([], Inl e)"
    and l: \<open>loop ref_rt [''{"code": 5}\<newline>'', ''{"code":"x = 1"}\<newline>''] Map.empty initial_proc =
           loop ref_rt [''{"code":"x = 1"}\<newline>''] Map.empty
             ((captured initial_proc [])\<lparr>trace := trace initial_proc @ Read ''{"code": 5}\<newline>'' #
                 reply ref_rt \<lparr>stdout = [], stderr = [], error = Some (format_exc ref_rt e)\<rparr>\<rparr>)\<close>
    by blast
  from e have e': "e = TypeError ''compile() arg 1 must be a string, bytes or AST object''"
    by (simp add: compile_five)
  show ?thesis
    unfolding main_def l e'
    by (simp add: ref_rejects_non_text t run_ref loads_x1 compile_x1 TypeError_def)
qed

end
